theory Spec2Isabelle
  imports Complex_Main
begin

section \<open>Weapons (rpg\_game/weapon.py)\<close>

text \<open>
  The five concrete subclasses of the abstract class \<open>Weapon\<close>. An object carries the two
  attributes set by \<open>Weapon.__init__\<close> and its class; \<open>isinstance(w, Scissors)\<close> is a test on
  the class, since none of the five classes derives from another.
\<close>

datatype weapon_kind = Rock | Paper | Scissors | Lizard | Spock

record Weapon =
  weapon_name :: string
  damage_bonus :: int
  kind :: weapon_kind

definition new_Rock :: Weapon where
  "new_Rock = \<lparr>weapon_name = ''Rock'', damage_bonus = 5, kind = Rock\<rparr>"

definition new_Paper :: Weapon where
  "new_Paper = \<lparr>weapon_name = ''Paper'', damage_bonus = 3, kind = Paper\<rparr>"

definition new_Scissors :: Weapon where
  "new_Scissors = \<lparr>weapon_name = ''Scissors'', damage_bonus = 4, kind = Scissors\<rparr>"

definition new_Lizard :: Weapon where
  "new_Lizard = \<lparr>weapon_name = ''Lizard'', damage_bonus = 3, kind = Lizard\<rparr>"

definition new_Spock :: Weapon where
  "new_Spock = \<lparr>weapon_name = ''Spock'', damage_bonus = 5, kind = Spock\<rparr>"

text \<open>
  The argument of \<open>use\<close> is any object. The method reads two attributes of it:
  \<open>weapon\<close> (guarded by \<open>hasattr\<close> and \<open>isinstance\<close>) and \<open>name\<close> (through \<open>getattr\<close> with a
  default). \<open>target_weapon = None\<close> stands for an object without the attribute as well as
  for one whose attribute is \<open>None\<close>: both make every \<open>isinstance\<close> test false.
\<close>

record target =
  target_name :: "string option"
  target_weapon :: "Weapon option"

text \<open>
  Each \<open>use\<close> method has three \<open>return\<close> statements. The first component of the result
  names the one taken, the second is the message it builds.
\<close>

datatype verdict = CriticalAdvantage | Disadvantage | Neutral

definition holds :: "target \<Rightarrow> weapon_kind list \<Rightarrow> bool" where
  "holds t ks = (case target_weapon t of None \<Rightarrow> False | Some w \<Rightarrow> kind w \<in> set ks)"

definition held_name :: "target \<Rightarrow> string" where
  "held_name t = (case target_weapon t of None \<Rightarrow> [] | Some w \<Rightarrow> weapon_name w)"

definition name_or_default :: "target \<Rightarrow> string" where
  "name_or_default t = (case target_name t of None \<Rightarrow> ''the target'' | Some n \<Rightarrow> n)"

definition Rock_use :: "Weapon \<Rightarrow> target \<Rightarrow> verdict \<times> string" where
  "Rock_use self t =
     (if holds t [Scissors] then
        (CriticalAdvantage, weapon_name self @ '' crushes '' @ held_name t @ ''! Critical hit!'')
      else if holds t [Paper] then
        (Disadvantage,
         weapon_name self @ '' is wrapped by '' @ held_name t @ ''! Not very effective...'')
      else (Neutral, ''Threw '' @ weapon_name self @ '' at '' @ name_or_default t @ ''!''))"

definition Paper_use :: "Weapon \<Rightarrow> target \<Rightarrow> verdict \<times> string" where
  "Paper_use self t =
     (if holds t [Rock] then
        (CriticalAdvantage,
         weapon_name self @ '' wraps around '' @ held_name t @ ''! Critical hit!'')
      else if holds t [Scissors] then
        (Disadvantage,
         weapon_name self @ '' is cut by '' @ held_name t @ ''! Not very effective...'')
      else (Neutral, ''Used '' @ weapon_name self @ '' on '' @ name_or_default t @ ''!''))"

definition Scissors_use :: "Weapon \<Rightarrow> target \<Rightarrow> verdict \<times> string" where
  "Scissors_use self t =
     (if holds t [Paper, Lizard] then
        (CriticalAdvantage,
         weapon_name self @ '' cut through '' @ held_name t @ ''! Critical hit!'')
      else if holds t [Rock, Spock] then
        (Disadvantage,
         weapon_name self @ '' are crushed by '' @ held_name t @ ''! Not very effective...'')
      else (Neutral, ''Used '' @ weapon_name self @ '' on '' @ name_or_default t @ ''!''))"

definition Lizard_use :: "Weapon \<Rightarrow> target \<Rightarrow> verdict \<times> string" where
  "Lizard_use self t =
     (if holds t [Spock, Paper] then
        (CriticalAdvantage, weapon_name self @ '' poisons '' @ held_name t @ ''! Critical hit!'')
      else if holds t [Rock, Scissors] then
        (Disadvantage,
         weapon_name self @ '' is defeated by '' @ held_name t @ ''! Not very effective...'')
      else (Neutral, ''Used '' @ weapon_name self @ '' on '' @ name_or_default t @ ''!''))"

definition Spock_use :: "Weapon \<Rightarrow> target \<Rightarrow> verdict \<times> string" where
  "Spock_use self t =
     (if holds t [Rock, Scissors] then
        (CriticalAdvantage,
         weapon_name self @ '' vaporizes '' @ held_name t @ ''! Critical hit!'')
      else if holds t [Lizard, Paper] then
        (Disadvantage,
         weapon_name self @ '' is defeated by '' @ held_name t @ ''! Not very effective...'')
      else (Neutral, ''Used '' @ weapon_name self @ '' on '' @ name_or_default t @ ''!''))"

text \<open>Method dispatch on the class of the receiver.\<close>

definition use :: "Weapon \<Rightarrow> target \<Rightarrow> verdict \<times> string" where
  "use self t =
     (case kind self of
        Rock \<Rightarrow> Rock_use self t
      | Paper \<Rightarrow> Paper_use self t
      | Scissors \<Rightarrow> Scissors_use self t
      | Lizard \<Rightarrow> Lizard_use self t
      | Spock \<Rightarrow> Spock_use self t)"

text \<open>
  The matchup table as the specification lists it (section 4.1): for each kind, the kinds
  it beats and the kinds it loses to; every other pair, and an opponent without a weapon,
  is neutral.
\<close>

fun table_beats :: "weapon_kind \<Rightarrow> weapon_kind list" where
  "table_beats Rock = [Scissors]"
| "table_beats Paper = [Rock]"
| "table_beats Scissors = [Paper, Lizard]"
| "table_beats Lizard = [Spock, Paper]"
| "table_beats Spock = [Rock, Scissors]"

fun table_loses_to :: "weapon_kind \<Rightarrow> weapon_kind list" where
  "table_loses_to Rock = [Paper]"
| "table_loses_to Paper = [Scissors]"
| "table_loses_to Scissors = [Rock, Spock]"
| "table_loses_to Lizard = [Rock, Scissors]"
| "table_loses_to Spock = [Lizard, Paper]"

fun table_verdict :: "weapon_kind \<Rightarrow> weapon_kind option \<Rightarrow> verdict" where
  "table_verdict a None = Neutral"
| "table_verdict a (Some b) =
     (if b \<in> set (table_beats a) then CriticalAdvantage
      else if b \<in> set (table_loses_to a) then Disadvantage
      else Neutral)"


section \<open>Characters (rpg\_game/character.py)\<close>

text \<open>
  \<open>Character\<close> is abstract; an object belongs to one of the six concrete classes below.
  The record holds the attributes that \<open>Character.__init__\<close> sets and the methods of this
  section read or write; the attributes \<open>inventory\<close>, \<open>ability\<close> and \<open>sidekick\<close> are touched
  by none of them and are left out. \<open>health\<close> is the private attribute \<open>_health\<close>. All
  numbers are Python integers, hence \<open>int\<close>. The \<open>weapon\<close> attribute refers to a weapon
  object that no method changes, so the record holds its value.

  \<open>Character_init\<close> gives the attribute values that \<open>__init__\<close> assigns. The constructor
  also builds the \<open>inventory\<close> attribute, by \<open>Inventory(capacity=inventory_capacity)\<close>, a
  keyword that \<open>Inventory.__init__\<close> does not declare; that call is not part of the
  model, which starts from a character with its attributes set.
\<close>

datatype archetype = Player | DefenderSidekick | HealerSidekick | Goblin | Orc | Boss

record Character =
  char_name :: string
  health :: int
  damage :: int
  weapon :: "Weapon option"
  level :: int
  experience :: int
  archetype :: archetype

definition Character_init :: "archetype \<Rightarrow> string \<Rightarrow> int \<Rightarrow> int \<Rightarrow> Character" where
  "Character_init cls n h d =
     \<lparr>char_name = n, health = h, damage = d, weapon = None, level = 1, experience = 0,
      archetype = cls\<rparr>"

definition new_Player :: "string \<Rightarrow> int \<Rightarrow> int \<Rightarrow> Character" where
  "new_Player n h d = Character_init Player n h d"

definition new_Goblin :: Character where
  "new_Goblin = Character_init Goblin ''Goblin'' 30 5"

definition new_Orc :: Character where
  "new_Orc = Character_init Orc ''Orc'' 60 8"

definition new_Boss :: "string \<Rightarrow> int \<Rightarrow> int \<Rightarrow> Character" where
  "new_Boss n h d = Character_init Boss n h d"

definition take_damage :: "Character \<Rightarrow> int \<Rightarrow> Character" where
  "take_damage self amount = self\<lparr>health := max 0 (health self - amount)\<rparr>"

definition is_alive :: "Character \<Rightarrow> bool" where
  "is_alive self = (health self > 0)"

definition get_health :: "Character \<Rightarrow> int" where
  "get_health self = health self"

text \<open>
  The class body defines \<open>set_health\<close> (and \<open>attack\<close>) twice; the later definition is the
  one the class keeps, and it is the one modelled.
\<close>

definition set_health :: "Character \<Rightarrow> int \<Rightarrow> Character" where
  "set_health self new_health =
     (if new_health < 0 then self\<lparr>health := 0\<rparr> else self\<lparr>health := new_health\<rparr>)"

definition level_up :: "Character \<Rightarrow> int \<Rightarrow> Character" where
  "level_up self levels =
     self\<lparr>level := level self + levels,
          health := health self + 10 * levels,
          damage := damage self + 2 * levels\<rparr>"

text \<open>Python's \<open>//\<close> on integers rounds towards minus infinity, as \<open>div\<close> on \<open>int\<close> does.\<close>

definition add_experience :: "Character \<Rightarrow> int \<Rightarrow> Character" where
  "add_experience self amount =
     (let self1 = self\<lparr>experience := experience self + amount\<rparr>;
          levels_gained = experience self1 div 100
      in if levels_gained > 0 then level_up self1 levels_gained else self1)"

text \<open>
  Attacker and target are objects and may be the same object, so \<open>attack\<close> works on a
  store that maps object identities to character values.

  Modelled from the spec: the class \<open>GameLogger\<close> (rpg\_game/utils/logger.py) is not among
  the sources. Section 5 of the specification lets the engine emit structured events and
  nothing else, so \<open>log_combat\<close> appends one event (attacker name, defender name, amount,
  note) to the log and leaves both characters as they are. \<open>None\<close> is the default
  argument \<open>logger=None\<close>.
\<close>

type_synonym ref = nat

type_synonym chars = "ref \<Rightarrow> Character"

type_synonym event = "string \<times> string \<times> int \<times> string"

definition log_combat :: "event list \<Rightarrow> Character \<Rightarrow> Character \<Rightarrow> int \<Rightarrow> string \<Rightarrow> event list"
  where
  "log_combat lg attacker defender amount note =
     lg @ [(char_name attacker, char_name defender, amount, note)]"

definition Character_attack ::
  "chars \<Rightarrow> ref \<Rightarrow> ref \<Rightarrow> event list option \<Rightarrow> chars \<times> event list option \<times> int" where
  "Character_attack H self enemy logger =
     (let total_damage =
            damage (H self) + (case weapon (H self) of Some w \<Rightarrow> damage_bonus w | None \<Rightarrow> 0);
          current_health = get_health (H enemy);
          H1 = H(enemy := set_health (H enemy) (current_health - total_damage));
          logger1 = map_option (\<lambda>lg. log_combat lg (H1 self) (H1 enemy) total_damage []) logger
      in (H1, logger1, total_damage))"

text \<open>
  \<open>Boss.attack\<close> draws one number from \<open>random.random()\<close>; the draw is the argument
  \<open>roll\<close>. A double is below the double nearest to 0.2 exactly when it is below one fifth.
\<close>

definition Boss_attack ::
  "rat \<Rightarrow> chars \<Rightarrow> ref \<Rightarrow> ref \<Rightarrow> event list option \<Rightarrow> chars \<times> event list option \<times> int"
  where
  "Boss_attack roll H self enemy logger =
     (case Character_attack H self enemy logger of
        (H1, logger1, damage_dealt) \<Rightarrow>
          if roll < 2 / 10 then
            (let extra_damage = damage_dealt;
                 H2 = H1(enemy := take_damage (H1 enemy) extra_damage);
                 logger2 = map_option
                   (\<lambda>lg. log_combat lg (H2 self) (H2 enemy) extra_damage ''(critical hit!)'')
                   logger1
             in (H2, logger2, damage_dealt + extra_damage))
          else (H1, logger1, damage_dealt))"

text \<open>Method dispatch: only \<open>Boss\<close> overrides \<open>attack\<close>.\<close>

definition attack ::
  "rat \<Rightarrow> chars \<Rightarrow> ref \<Rightarrow> ref \<Rightarrow> event list option \<Rightarrow> chars \<times> event list option \<times> int"
  where
  "attack roll H self enemy logger =
     (if archetype (H self) = Boss then Boss_attack roll H self enemy logger
      else Character_attack H self enemy logger)"


section \<open>Items and the inventory (rpg\_game/inventory.py)\<close>

datatype ItemType = ARMOR | WEAPON | CONSUMABLE | MISC

datatype ArmorType = HELMET | CHESTPLATE | LEGGINGS | BOOTS | CHARM

datatype WeaponType = BATTLE_AXE | SHORT_SWORD | BOW_AND_ARROW

text \<open>
  An item object is an instance of the dataclass \<open>Item\<close> or of one of its subclasses
  \<open>Armor\<close>, \<open>Weapon\<close> and \<open>Consumable\<close>. The record holds the fields of \<open>Item\<close>; \<open>cls\<close> holds
  the class of the object together with the fields that class adds. The field \<open>value\<close> is
  \<open>item_value\<close> and the field \<open>range\<close> is \<open>weapon_range\<close> here.

  The fields of each class are those its body lists. (As the bodies stand, the dataclass
  decorator refuses the three subclasses, whose fields without a default come after
  inherited fields with one; the methods of \<open>Inventory\<close> do not depend on the order.)
  Objects are given by their field values.

  \<open>weight\<close> and \<open>current_weight\<close> are Python floats. They are modelled as rationals, which
  agrees with the floats wherever no operation rounds; the concrete inventories below
  use small whole-number weights, on which double arithmetic is exact.
\<close>

datatype item_class =
    ItemBase
  | ArmorSub (armor_type: ArmorType) (defense: int) (armor_durability: int)
      (armor_is_equipped: bool)
  | WeaponSub (weapon_type: WeaponType) (weapon_damage: int) (weapon_durability: int)
      (weapon_is_equipped: bool) (weapon_range: int)
  | ConsumableSub (effect: string) (potency: int) (duration: int)

record Item =
  item_name :: string
  description :: string
  weight :: rat
  item_value :: int
  item_type :: ItemType
  max_stack :: int
  quantity :: int
  cls :: item_class

text \<open>The three \<open>__post_init__\<close> methods overwrite \<open>item_type\<close> with the tag of the class.\<close>

definition post_init :: "Item \<Rightarrow> Item" where
  "post_init it =
     (case cls it of
        ItemBase \<Rightarrow> it
      | ArmorSub _ _ _ _ \<Rightarrow> it\<lparr>item_type := ARMOR\<rparr>
      | WeaponSub _ _ _ _ _ \<Rightarrow> it\<lparr>item_type := WEAPON\<rparr>
      | ConsumableSub _ _ _ \<Rightarrow> it\<lparr>item_type := CONSUMABLE\<rparr>)"

definition isinstance_Consumable :: "Item \<Rightarrow> bool" where
  "isinstance_Consumable it =
     (case cls it of ConsumableSub _ _ _ \<Rightarrow> True | _ \<Rightarrow> False)"

text \<open>
  Items are mutable objects that the inventory shares with its callers: \<open>add_item\<close> keeps
  the object it is given and later calls change it in place. The state therefore has a
  store \<open>heap\<close> from object identities to item values, next to the four attributes of
  the \<open>Inventory\<close> object, which hold identities. The dictionary \<open>equipped_armor\<close> has one
  key for each \<open>ArmorType\<close> from its construction on, so it is a total function.
\<close>

record state =
  heap :: "ref \<Rightarrow> Item"
  items :: "ref list"
  equipped_armor :: "ArmorType \<Rightarrow> ref option"
  equipped_weapon :: "ref option"
  current_weight :: rat

definition MAX_WEIGHT :: rat where
  "MAX_WEIGHT = 100"

definition MAX_CONSUMABLES :: nat where
  "MAX_CONSUMABLES = 3"

definition Inventory_init :: "(ref \<Rightarrow> Item) \<Rightarrow> state" where
  "Inventory_init h =
     \<lparr>heap = h, items = [], equipped_armor = (\<lambda>_. None), equipped_weapon = None,
      current_weight = 0\<rparr>"

text \<open>
  \<open>x in self.items\<close> and \<open>inv_item == item\<close> use the equality the dataclass decorator
  generates: same class and equal fields, which is equality of the record values (an
  object is equal to itself).
\<close>

definition contains :: "state \<Rightarrow> ref \<Rightarrow> bool" where
  "contains s x = (heap s x \<in> set (map (heap s) (items s)))"

definition append_item :: "state \<Rightarrow> ref \<Rightarrow> bool \<times> state" where
  "append_item s item =
     (True, s\<lparr>items := items s @ [item],
              current_weight :=
                current_weight s + weight (heap s item) * of_int (quantity (heap s item))\<rparr>)"

text \<open>
  In the stacking branch the assignment to \<open>existing.quantity\<close> comes first, and the
  charge to \<open>current_weight\<close> reads \<open>item.quantity\<close> after it, from the updated store.
\<close>

definition add_item :: "state \<Rightarrow> ref \<Rightarrow> bool \<times> state" where
  "add_item s item =
     (if current_weight s + weight (heap s item) * of_int (quantity (heap s item)) > MAX_WEIGHT
      then (False, s)
      else if item_type (heap s item) = CONSUMABLE then
        (case find (\<lambda>existing. isinstance_Consumable (heap s existing)
                      \<and> item_name (heap s existing) = item_name (heap s item)
                      \<and> quantity (heap s existing) < max_stack (heap s existing)) (items s) of
           Some existing \<Rightarrow>
             (let h1 = (heap s)(existing := (heap s existing)
                         \<lparr>quantity := quantity (heap s existing) + quantity (heap s item)\<rparr>)
              in (True, s\<lparr>heap := h1,
                           current_weight :=
                             current_weight s + weight (h1 item) * of_int (quantity (h1 item))\<rparr>))
         | None \<Rightarrow>
             if length (filter (\<lambda>i. item_type (heap s i) = CONSUMABLE) (items s))
                  \<ge> MAX_CONSUMABLES
             then (False, s)
             else append_item s item)
      else append_item s item)"

text \<open>The index at which the loop of \<open>remove_item\<close> stops, if it does.\<close>

fun first_equal :: "(ref \<Rightarrow> Item) \<Rightarrow> ref \<Rightarrow> ref list \<Rightarrow> nat option" where
  "first_equal h item [] = None"
| "first_equal h item (inv_item # rest) =
     (if h inv_item = h item then Some 0 else map_option Suc (first_equal h item rest))"

definition remove_item :: "state \<Rightarrow> ref \<Rightarrow> int \<Rightarrow> bool \<times> state" where
  "remove_item s item n =
     (case first_equal (heap s) item (items s) of
        None \<Rightarrow> (False, s)
      | Some i \<Rightarrow>
          (let inv_item = items s ! i in
           if quantity (heap s inv_item) > n then
             (let h1 = (heap s)(inv_item := (heap s inv_item)
                         \<lparr>quantity := quantity (heap s inv_item) - n\<rparr>)
              in (True, s\<lparr>heap := h1,
                           current_weight := current_weight s - weight (h1 item) * of_int n\<rparr>))
           else
             (True, s\<lparr>items := take i (items s) @ drop (Suc i) (items s),
                      current_weight :=
                        current_weight s
                          - weight (heap s item) * of_int (quantity (heap s inv_item))\<rparr>)))"

text \<open>
  \<open>is_equipped\<close> is a field of \<open>Armor\<close> and of \<open>Weapon\<close>. Assigned on an object of another
  class, it becomes an attribute outside the dataclass fields, which neither equality
  nor any method of the module reads; the value of such an object does not change.
\<close>

definition set_is_equipped :: "(ref \<Rightarrow> Item) \<Rightarrow> ref \<Rightarrow> bool \<Rightarrow> (ref \<Rightarrow> Item)" where
  "set_is_equipped h x b =
     h(x := (h x)\<lparr>cls :=
        (case cls (h x) of
           ArmorSub t d du _ \<Rightarrow> ArmorSub t d du b
         | WeaponSub t d du _ r \<Rightarrow> WeaponSub t d du b r
         | other \<Rightarrow> other)\<rparr>)"

definition unequip_armor :: "state \<Rightarrow> ArmorType \<Rightarrow> bool \<times> state" where
  "unequip_armor s slot =
     (case equipped_armor s slot of
        None \<Rightarrow> (False, s)
      | Some a \<Rightarrow>
          (True, s\<lparr>heap := set_is_equipped (heap s) a False,
                   equipped_armor := (equipped_armor s)(slot := None)\<rparr>))"

datatype error = AttributeError

text \<open>
  \<open>armor.armor_type\<close> is read before anything is written; an object of a class other than
  \<open>Armor\<close> has no such attribute.
\<close>

definition equip_armor :: "state \<Rightarrow> ref \<Rightarrow> error + bool \<times> state" where
  "equip_armor s armor =
     (if \<not> contains s armor then Inr (False, s)
      else case cls (heap s armor) of
        ArmorSub slot _ _ _ \<Rightarrow>
          (let s1 = (if equipped_armor s slot \<noteq> None then snd (unequip_armor s slot) else s);
               s2 = s1\<lparr>heap := set_is_equipped (heap s1) armor True\<rparr>
           in Inr (True, s2\<lparr>equipped_armor := (equipped_armor s2)(slot := Some armor)\<rparr>))
      | _ \<Rightarrow> Inl AttributeError)"

definition unequip_weapon :: "state \<Rightarrow> bool \<times> state" where
  "unequip_weapon s =
     (case equipped_weapon s of
        None \<Rightarrow> (False, s)
      | Some w \<Rightarrow>
          (True, s\<lparr>heap := set_is_equipped (heap s) w False, equipped_weapon := None\<rparr>))"

definition equip_weapon :: "state \<Rightarrow> ref \<Rightarrow> bool \<times> state" where
  "equip_weapon s wpn =
     (if \<not> contains s wpn then (False, s)
      else
        (let s1 = (if equipped_weapon s \<noteq> None then snd (unequip_weapon s) else s);
             s2 = s1\<lparr>heap := set_is_equipped (heap s1) wpn True\<rparr>
         in (True, s2\<lparr>equipped_weapon := Some wpn\<rparr>)))"

text \<open>
  The \<open>print\<close> call reads \<open>consumable.effect\<close>, which only a \<open>Consumable\<close> has; what it
  prints is not part of the state.
\<close>

definition use_consumable :: "state \<Rightarrow> ref \<Rightarrow> error + bool \<times> state" where
  "use_consumable s consumable =
     (if \<not> contains s consumable then Inr (False, s)
      else case cls (heap s consumable) of
        ConsumableSub _ _ _ \<Rightarrow> Inr (remove_item s consumable 1)
      | _ \<Rightarrow> Inl AttributeError)"

definition get_total_weight :: "state \<Rightarrow> rat" where
  "get_total_weight s =
     sum_list (map (\<lambda>item. weight (heap s item) * of_int (quantity (heap s item))) (items s))"


subsection \<open>Sequences of calls\<close>

datatype call =
    AddItem ref
  | RemoveItem ref int
  | EquipArmor ref
  | EquipWeapon ref
  | UnequipArmor ArmorType
  | UnequipWeapon
  | UseConsumable ref

fun exec_call :: "state \<Rightarrow> call \<Rightarrow> error + bool \<times> state" where
  "exec_call s (AddItem x) = Inr (add_item s x)"
| "exec_call s (RemoveItem x n) = Inr (remove_item s x n)"
| "exec_call s (EquipArmor x) = equip_armor s x"
| "exec_call s (EquipWeapon x) = Inr (equip_weapon s x)"
| "exec_call s (UnequipArmor slot) = Inr (unequip_armor s slot)"
| "exec_call s UnequipWeapon = Inr (unequip_weapon s)"
| "exec_call s (UseConsumable x) = use_consumable s x"

text \<open>
  A sequence of calls runs until one raises; the result is the state reached and the
  error, if any. (Both raising calls raise before they write.)
\<close>

fun run :: "state \<Rightarrow> call list \<Rightarrow> state \<times> error option" where
  "run s [] = (s, None)"
| "run s (c # cs) =
     (case exec_call s c of
        Inl e \<Rightarrow> (s, Some e)
      | Inr (ok, s') \<Rightarrow> run s' cs)"

text \<open>The objects the equip slots refer to, and the invariant of section 3 on them.\<close>

definition armor_slots :: "ArmorType list" where
  "armor_slots = [HELMET, CHESTPLATE, LEGGINGS, BOOTS, CHARM]"

definition equipped_refs :: "state \<Rightarrow> ref list" where
  "equipped_refs s =
     concat (map (\<lambda>slot. case equipped_armor s slot of None \<Rightarrow> [] | Some a \<Rightarrow> [a]) armor_slots)
       @ (case equipped_weapon s of None \<Rightarrow> [] | Some w \<Rightarrow> [w])"

definition slots_in_items :: "state \<Rightarrow> bool" where
  "slots_in_items s = (set (equipped_refs s) \<subseteq> set (items s))"

text \<open>
  What section 4.3 of the specification leaves to the caller, as a condition on one call
  in the state it is made in: an object handed to \<open>equip_armor\<close> or \<open>equip_weapon\<close> that
  passes the presence test is itself an entry of the collection (not merely equal to
  one), and the entry at which the loop of \<open>remove_item\<close> stops is not referred to by an
  equip slot when the call takes it out of the collection.
\<close>

definition selected :: "state \<Rightarrow> ref \<Rightarrow> ref option" where
  "selected s item = map_option (\<lambda>i. items s ! i) (first_equal (heap s) item (items s))"

fun call_contract :: "state \<Rightarrow> call \<Rightarrow> bool" where
  "call_contract s (EquipArmor x) = (contains s x \<longrightarrow> x \<in> set (items s))"
| "call_contract s (EquipWeapon x) = (contains s x \<longrightarrow> x \<in> set (items s))"
| "call_contract s (RemoveItem x n) =
     (case selected s x of
        None \<Rightarrow> True
      | Some e \<Rightarrow> quantity (heap s e) > n \<or> e \<notin> set (equipped_refs s))"
| "call_contract s (UseConsumable x) =
     (case selected s x of
        None \<Rightarrow> True
      | Some e \<Rightarrow> quantity (heap s e) > 1 \<or> e \<notin> set (equipped_refs s))"
| "call_contract s (AddItem x) = True"
| "call_contract s (UnequipArmor slot) = True"
| "call_contract s UnequipWeapon = True"

fun contract_run :: "state \<Rightarrow> call list \<Rightarrow> bool" where
  "contract_run s [] = True"
| "contract_run s (c # cs) =
     (call_contract s c \<and>
      (case exec_call s c of
         Inl e \<Rightarrow> True
       | Inr (ok, s') \<Rightarrow> contract_run s' cs))"


section \<open>Concrete objects\<close>

definition armed :: "Weapon \<Rightarrow> target" where
  "armed w = \<lparr>target_name = Some ''Goblin'', target_weapon = Some w\<rparr>"

definition unarmed :: target where
  "unarmed = \<lparr>target_name = Some ''Goblin'', target_weapon = None\<rparr>"

text \<open>A player (health 100, damage 10) holding a rock.\<close>

definition hero :: Character where
  "hero = (new_Player ''Hero'' 100 10)\<lparr>weapon := Some new_Rock\<rparr>"

text \<open>Object 0 is the player; every other object is a goblin (health 30, no weapon).\<close>

definition duel :: chars where
  "duel = (\<lambda>_. new_Goblin)(0 := hero)"

text \<open>The same, with goblin 1 down to 10 health.\<close>

definition weak_duel :: chars where
  "weak_duel = duel(1 := new_Goblin\<lparr>health := 10\<rparr>)"

text \<open>Object 0 is a boss with base damage 50 and no weapon; every other object is the player.\<close>

definition lair :: chars where
  "lair = (\<lambda>_. hero)(0 := new_Boss ''Dragon Lord'' 300 50)"

text \<open>The same, with player 1 at 0 health.\<close>

definition fallen :: chars where
  "fallen = lair(1 := hero\<lparr>health := 0\<rparr>)"

definition potion :: Item where
  "potion = post_init \<lparr>item_name = ''Health Potion'',
     description = ''Restores 30 health points when consumed.'', weight = 20, item_value = 25,
     item_type = CONSUMABLE, max_stack = 5, quantity = 1,
     cls = ConsumableSub ''restore_health'' 30 0\<rparr>"

definition helmet :: Item where
  "helmet = post_init \<lparr>item_name = ''Leather Helmet'',
     description = ''Basic head protection made of tanned leather.'', weight = 1, item_value = 15,
     item_type = ARMOR, max_stack = 1, quantity = 1, cls = ArmorSub HELMET 2 100 False\<rparr>"

definition sword :: Item where
  "sword = post_init \<lparr>item_name = ''Rusty Sword'',
     description = ''An old, worn-out sword that has seen better days.'', weight = 3,
     item_value = 20, item_type = WEAPON, max_stack = 1, quantity = 1,
     cls = WeaponSub SHORT_SWORD 5 100 False 1\<rparr>"

text \<open>Every object is a health potion of weight 20, one unit, stack bound 5.\<close>

definition shelf :: "ref \<Rightarrow> Item" where
  "shelf = (\<lambda>_. potion)"

text \<open>Two health potion objects of weight 1: a stack of four and a stack of three.\<close>

definition cellar :: "ref \<Rightarrow> Item" where
  "cellar = (\<lambda>_. potion)(0 := potion\<lparr>weight := 1, quantity := 4\<rparr>,
                           1 := potion\<lparr>weight := 1, quantity := 3\<rparr>)"

text \<open>A helmet, a sword, a stack of two potions, and a second helmet equal to the first.\<close>

definition armory :: "ref \<Rightarrow> Item" where
  "armory =
     (\<lambda>_. potion)(0 := helmet, 1 := sword, 2 := potion\<lparr>quantity := 2\<rparr>, 3 := helmet)"

text \<open>Three consumables of three other names; every other object is a health potion.\<close>

definition pantry :: "ref \<Rightarrow> Item" where
  "pantry = (\<lambda>_. potion)(0 := potion\<lparr>item_name := ''Stamina Elixir''\<rparr>,
                           1 := potion\<lparr>item_name := ''Antidote''\<rparr>,
                           2 := potion\<lparr>item_name := ''Mana Potion''\<rparr>)"

definition full_pantry :: state where
  "full_pantry = (Inventory_init pantry)\<lparr>items := [0, 1, 2], current_weight := 60\<rparr>"


section \<open>Auxiliary facts\<close>

lemma Character_attack_result:
  "Character_attack H self enemy logger =
     (H(enemy := set_health (H enemy)
          (health (H enemy) - (damage (H self) + (case weapon (H self) of Some w \<Rightarrow> damage_bonus w | None \<Rightarrow> 0)))),
      map_option (\<lambda>lg. log_combat lg
          ((H(enemy := set_health (H enemy)
          (health (H enemy) - (damage (H self) + (case weapon (H self) of Some w \<Rightarrow> damage_bonus w | None \<Rightarrow> 0))))) self)
          ((H(enemy := set_health (H enemy)
          (health (H enemy) - (damage (H self) + (case weapon (H self) of Some w \<Rightarrow> damage_bonus w | None \<Rightarrow> 0))))) enemy)
          (damage (H self) + (case weapon (H self) of Some w \<Rightarrow> damage_bonus w | None \<Rightarrow> 0)) []) logger,
      damage (H self) + (case weapon (H self) of Some w \<Rightarrow> damage_bonus w | None \<Rightarrow> 0))"
  by (simp add: Character_attack_def Let_def get_health_def)

lemma health_set_health: "health (set_health c n) = max 0 n"
  by (simp add: set_health_def)

lemma armor_slots_all: "slot \<in> set armor_slots"
  by (cases slot) (simp_all add: armor_slots_def)

lemma set_equipped_refs:
  "set (equipped_refs s) = {a. \<exists>slot. equipped_armor s slot = Some a} \<union> {w. equipped_weapon s = Some w}"
proof -
  have "(\<Union>slot\<in>set armor_slots. set (case equipped_armor s slot of None \<Rightarrow> [] | Some a \<Rightarrow> [a]))
          = {a. \<exists>slot. equipped_armor s slot = Some a}" (is "?L = ?R")
  proof
    show "?L \<subseteq> ?R"
      by (auto split: option.splits)
    show "?R \<subseteq> ?L"
    proof
      fix a assume "a \<in> ?R"
      then obtain slot where "equipped_armor s slot = Some a" by blast
      then have "a \<in> set (case equipped_armor s slot of None \<Rightarrow> [] | Some a \<Rightarrow> [a])"
        by simp
      then show "a \<in> ?L"
        using armor_slots_all [of slot] by blast
    qed
  qed
  then show ?thesis
    by (auto simp: equipped_refs_def split: option.splits)
qed

lemma slots_in_items_iff:
  "slots_in_items s \<longleftrightarrow>
     (\<forall>slot a. equipped_armor s slot = Some a \<longrightarrow> a \<in> set (items s))
     \<and> (\<forall>w. equipped_weapon s = Some w \<longrightarrow> w \<in> set (items s))"
  by (auto simp: slots_in_items_def set_equipped_refs)

lemma first_equal_Some:
  "first_equal h x xs = Some i \<Longrightarrow> i < length xs \<and> h (xs ! i) = h x"
  by (induction xs arbitrary: i) (auto split: if_splits)

lemma set_pop: "a \<in> set xs \<Longrightarrow> a \<noteq> xs ! i \<Longrightarrow> a \<in> set (take i xs @ drop (Suc i) xs)"
  by (metis append_take_drop_id Cons_nth_drop_Suc Un_iff not_less set_ConsD set_append
      drop_all take_all)

lemma add_item_slots: "slots_in_items s \<Longrightarrow> slots_in_items (snd (add_item s x))"
  by (auto simp: slots_in_items_iff add_item_def append_item_def Let_def split: option.splits)

lemma unequip_armor_slots: "slots_in_items s \<Longrightarrow> slots_in_items (snd (unequip_armor s slot))"
  by (auto simp: slots_in_items_iff unequip_armor_def split: option.splits)

lemma unequip_weapon_slots: "slots_in_items s \<Longrightarrow> slots_in_items (snd (unequip_weapon s))"
  by (auto simp: slots_in_items_iff unequip_weapon_def split: option.splits)

lemma unequip_armor_items: "items (snd (unequip_armor s slot)) = items s"
  by (simp add: unequip_armor_def split: option.splits)

lemma unequip_weapon_items: "items (snd (unequip_weapon s)) = items s"
  by (simp add: unequip_weapon_def split: option.splits)

lemma equip_weapon_slots:
  assumes "slots_in_items s" and "contains s x \<longrightarrow> x \<in> set (items s)"
  shows "slots_in_items (snd (equip_weapon s x))"
  using assms unequip_weapon_slots [of s]
  by (auto simp: slots_in_items_iff equip_weapon_def Let_def unequip_weapon_items)

lemma equip_armor_slots:
  assumes "slots_in_items s" and "contains s x \<longrightarrow> x \<in> set (items s)"
    and "equip_armor s x = Inr (ok, s')"
  shows "slots_in_items s'"
  using assms unequip_armor_slots [of s]
  by (auto simp: slots_in_items_iff equip_armor_def Let_def unequip_armor_items
      split: if_splits item_class.splits)

lemma remove_item_slots:
  assumes "slots_in_items s"
    and "case selected s x of None \<Rightarrow> True
         | Some e \<Rightarrow> quantity (heap s e) > n \<or> e \<notin> set (equipped_refs s)"
  shows "slots_in_items (snd (remove_item s x n))"
proof (cases "first_equal (heap s) x (items s)")
  case None
  then show ?thesis using assms(1) by (simp add: remove_item_def)
next
  case (Some i)
  show ?thesis
  proof (cases "quantity (heap s (items s ! i)) > n")
    case True
    then show ?thesis
      using assms(1) Some by (auto simp: remove_item_def Let_def slots_in_items_iff)
  next
    case False
    with assms(2) Some have "items s ! i \<notin> set (equipped_refs s)"
      by (simp add: selected_def)
    then have "\<And>a. a \<in> set (equipped_refs s) \<Longrightarrow> a \<in> set (take i (items s) @ drop (Suc i) (items s))"
      using assms(1) set_pop [of _ "items s" i] by (auto simp: slots_in_items_def)
    moreover have "equipped_refs (snd (remove_item s x n)) = equipped_refs s"
      using Some False by (simp add: remove_item_def Let_def equipped_refs_def)
    moreover have "items (snd (remove_item s x n)) = take i (items s) @ drop (Suc i) (items s)"
      using Some False by (simp add: remove_item_def Let_def)
    ultimately show ?thesis
      by (auto simp: slots_in_items_def)
  qed
qed

lemma exec_call_slots:
  assumes "slots_in_items s" and "call_contract s c" and "exec_call s c = Inr (ok, s')"
  shows "slots_in_items s'"
proof (cases c)
  case (AddItem x)
  then show ?thesis using assms add_item_slots [of s x] by auto
next
  case (RemoveItem x n)
  then show ?thesis using assms remove_item_slots [where s = s and x = x and n = n] by auto
next
  case (EquipArmor x)
  then show ?thesis using assms equip_armor_slots [of s x ok s'] by auto
next
  case (EquipWeapon x)
  then show ?thesis using assms equip_weapon_slots [of s x] by auto
next
  case (UnequipArmor slot)
  then show ?thesis using assms unequip_armor_slots [of s slot] by auto
next
  case UnequipWeapon
  then show ?thesis using assms unequip_weapon_slots [of s] by auto
next
  case (UseConsumable x)
  then show ?thesis using assms remove_item_slots [where s = s and x = x and n = 1]
    by (auto simp: use_consumable_def split: if_splits item_class.splits)
qed
lemma hero_fields: "health hero = 100" "damage hero = 10" "weapon hero = Some new_Rock"
  "archetype hero = Player"
  by (simp_all add: hero_def new_Player_def Character_init_def)


section \<open>Experience and levels\<close>

text \<open>
  C1. \<open>add_experience\<close> does not limit level-ups to the thresholds crossed. A new player
  (level 1, experience 0) who gains 100 experience reaches level 2. One more point brings
  the total to 101, which is below the next threshold of 200, and the call raises the
  level again, to 3: each call grants the whole of \<open>experience // 100\<close> levels anew.
  (A single gain of 250 from level 1 does give two level-ups.)
\<close>

theorem add_experience_regrants_levels:
  "level (new_Player ''Hero'' 100 10) = 1
   \<and> experience (new_Player ''Hero'' 100 10) = 0
   \<and> level (add_experience (new_Player ''Hero'' 100 10) 100) = 2
   \<and> experience (add_experience (add_experience (new_Player ''Hero'' 100 10) 100) 1) = 101
   \<and> level (add_experience (add_experience (new_Player ''Hero'' 100 10) 100) 1) = 3
   \<and> level (add_experience (new_Player ''Hero'' 100 10) 250) = 3"
  by (simp add: add_experience_def level_up_def new_Player_def Character_init_def)


section \<open>The inventory's weight and stacks\<close>

text \<open>
  C2. The running total \<open>current_weight\<close> departs from the sum of weight times quantity
  over the held items, and exceeds the capacity of 100. One potion object of weight 20
  is added to an empty inventory three times. The second call merges the object into
  itself: its quantity becomes 2 and the charge, read after the merge, is 40, so the
  running total is 60 where the items weigh 40. The third call passes the weight test
  (60 + 40 is not above 100), doubles the quantity to 4 and charges 80: the running total
  is 140 where the items weigh 80.
\<close>

theorem add_item_same_object_overcharges:
  "current_weight (fst (run (Inventory_init shelf) [AddItem 0, AddItem 0])) = 60
   \<and> get_total_weight (fst (run (Inventory_init shelf) [AddItem 0, AddItem 0])) = 40
   \<and> current_weight (fst (run (Inventory_init shelf) [AddItem 0, AddItem 0, AddItem 0])) = 140
   \<and> get_total_weight (fst (run (Inventory_init shelf) [AddItem 0, AddItem 0, AddItem 0])) = 80
   \<and> MAX_WEIGHT = 100"
  by (simp add: Inventory_init_def add_item_def append_item_def isinstance_Consumable_def
      post_init_def MAX_WEIGHT_def MAX_CONSUMABLES_def get_total_weight_def Let_def shelf_def
      potion_def)

text \<open>
  C3. The stacking branch of \<open>add_item\<close> lets a stack grow past its bound. A stack of four
  potions with bound 5 is held; adding a stack of three potions of the same name passes
  the test \<open>quantity < max_stack\<close> and leaves the held stack at quantity 7.
\<close>

theorem add_item_merge_exceeds_max_stack:
  "quantity (cellar 0) = 4 \<and> quantity (cellar 1) = 3 \<and> max_stack (cellar 0) = 5
   \<and> items (fst (run (Inventory_init cellar) [AddItem 0, AddItem 1])) = [0]
   \<and> quantity (heap (fst (run (Inventory_init cellar) [AddItem 0, AddItem 1])) 0) = 7
   \<and> max_stack (heap (fst (run (Inventory_init cellar) [AddItem 0, AddItem 1])) 0) = 5"
  by (simp add: Inventory_init_def add_item_def append_item_def isinstance_Consumable_def
      post_init_def MAX_WEIGHT_def MAX_CONSUMABLES_def Let_def cellar_def potion_def)


section \<open>Damage\<close>

text \<open>
  C4. For every character and every amount, \<open>take_damage\<close> sets the health to the maximum
  of 0 and the health minus the amount; the health is not negative after the call,
  whatever the amount.
\<close>

theorem take_damage_clamps:
  "health (take_damage c amount) = max 0 (health c - amount)
   \<and> 0 \<le> health (take_damage c amount)"
  by (simp add: take_damage_def)

text \<open>
  C5, as stated, fails in three places. The health of the target goes down by the amount
  returned only while that amount is not above it: the player (damage 10, rock) attacks
  a goblin that has 10 health left, the call returns 15 and the goblin loses 10. A Boss
  with base damage 50 and no weapon returns 100 on a critical hit. And an attacker that
  is its own target is changed by its attack.
\<close>

theorem attack_reduces_counterexample:
  "snd (snd (attack 0 weak_duel 0 1 None)) = 15
   \<and> health (weak_duel 1) = 10
   \<and> health (fst (attack 0 weak_duel 0 1 None) 1) = 0
   \<and> health (weak_duel 1) - health (fst (attack 0 weak_duel 0 1 None) 1)
        \<noteq> snd (snd (attack 0 weak_duel 0 1 None))
   \<and> damage (lair 0) = 50 \<and> weapon (lair 0) = None
   \<and> snd (snd (attack 0 lair 0 1 None)) = 100
   \<and> health (duel 0) = 100
   \<and> health (fst (attack 0 duel 0 0 None) 0) = 85"
  by (simp add: attack_def Boss_attack_def Character_attack_result health_set_health
      take_damage_def weak_duel_def duel_def lair_def hero_fields new_Goblin_def new_Boss_def
      Character_init_def new_Rock_def)

text \<open>
  C5, amended. For every attacker whose attack is not a Boss's critical hit and for every
  target, \<open>attack\<close> returns the base damage plus the damage bonus of the weapon held (0
  without a weapon) and sets the health of the target to the maximum of 0 and its health
  minus that amount, which is a reduction by exactly that amount when the amount is not
  above the health; an attacker that is not its own target is left as it was.
\<close>

theorem attack_base_plus_bonus:
  assumes "\<not> (archetype (H self) = Boss \<and> roll < 2 / 10)"
  shows "snd (snd (attack roll H self enemy logger))
           = damage (H self) + (case weapon (H self) of None \<Rightarrow> 0 | Some w \<Rightarrow> damage_bonus w)
       \<and> health (fst (attack roll H self enemy logger) enemy)
           = max 0 (health (H enemy) - snd (snd (attack roll H self enemy logger)))
       \<and> (snd (snd (attack roll H self enemy logger)) \<le> health (H enemy) \<longrightarrow>
            health (fst (attack roll H self enemy logger) enemy)
              = health (H enemy) - snd (snd (attack roll H self enemy logger)))
       \<and> (self \<noteq> enemy \<longrightarrow> fst (attack roll H self enemy logger) self = H self)"
proof -
  have "attack roll H self enemy logger = Character_attack H self enemy logger"
    using assms by (auto simp: attack_def Boss_attack_def split: prod.splits)
  then show ?thesis
    by (auto simp: Character_attack_result health_set_health split: option.splits)
qed

text \<open>
  The scenario of the specification: the player (health 100, damage 10, rock) attacks a
  goblin (health 30, no weapon), deals 15 and leaves the goblin at 15 health and itself
  unchanged.
\<close>

theorem attack_base_plus_bonus_witness:
  "archetype (duel 0) = Player
   \<and> snd (snd (attack 0 duel 0 1 None)) = 15
   \<and> health (duel 1) = 30
   \<and> health (fst (attack 0 duel 0 1 None) 1) = 15
   \<and> fst (attack 0 duel 0 1 None) 0 = duel 0"
proof -
  have p: "archetype (duel 0) = Player" "damage (duel 0) = 10"
    "weapon (duel 0) = Some new_Rock" "health (duel 1) = 30"
    by (simp_all add: duel_def hero_fields new_Goblin_def Character_init_def)
  have no_crit: "\<not> (archetype (duel 0) = Boss \<and> (0::rat) < 2 / 10)"
    using p by simp
  note a = attack_base_plus_bonus [where H = duel and self = 0 and roll = 0 and enemy = 1
      and logger = None, OF no_crit]
  have dealt: "snd (snd (attack 0 duel 0 1 None)) = 15"
    using a [THEN conjunct1] p by (simp add: new_Rock_def)
  have after: "health (fst (attack 0 duel 0 1 None) 1) = 15"
    using a [THEN conjunct2, THEN conjunct1] dealt p by simp
  have same: "fst (attack 0 duel 0 1 None) 0 = duel 0"
    using a [THEN conjunct2, THEN conjunct2, THEN conjunct2] by simp
  show ?thesis
    using p dealt after same by simp
qed


section \<open>The matchup of weapons\<close>

text \<open>
  C6. For every weapon and every opponent, armed with one of the five kinds or unarmed,
  \<open>use\<close> takes the one branch that the table of the specification gives for the pair: it
  is neutral against an unarmed opponent and on every pair the table does not list, and
  whenever a weapon has the critical advantage over another, that other one does not
  have it over the first.
\<close>

theorem use_follows_table:
  "fst (use a t) = table_verdict (kind a) (map_option kind (target_weapon t))
   \<and> (target_weapon t = None \<longrightarrow> fst (use a t) = Neutral)
   \<and> (\<forall>b. target_weapon t = Some b \<and> kind b \<notin> set (table_beats (kind a))
          \<and> kind b \<notin> set (table_loses_to (kind a)) \<longrightarrow> fst (use a t) = Neutral)
   \<and> (\<forall>b t'. kind b \<in> set (table_beats (kind a)) \<and> target_weapon t' = Some a
          \<longrightarrow> fst (use b t') \<noteq> CriticalAdvantage)"
proof -
  have eq: "fst (use x u) = table_verdict (kind x) (map_option kind (target_weapon u))" for x u
    by (cases "kind x"; cases "target_weapon u")
       (auto simp: use_def Rock_use_def Paper_use_def Scissors_use_def Lizard_use_def
          Spock_use_def holds_def)
  have anti: "y \<in> set (table_beats x) \<Longrightarrow> table_verdict y (Some x) \<noteq> CriticalAdvantage"
    for x y
    by (cases x; cases y) simp_all
  have unlisted: "y \<notin> set (table_beats x) \<Longrightarrow> y \<notin> set (table_loses_to x) \<Longrightarrow>
                  table_verdict x (Some y) = Neutral" for x y
    by simp
  show ?thesis
    using anti [where x = "kind a"] unlisted [where x = "kind a"]
    by (auto simp: eq simp del: table_verdict.simps(2))
qed

text \<open>
  Rock against scissors and back, rock against an unarmed opponent, and rock against
  Spock, a pair the table does not list.
\<close>

theorem use_follows_table_witness:
  "target_weapon (armed new_Scissors) = Some new_Scissors
   \<and> target_weapon (armed new_Rock) = Some new_Rock
   \<and> fst (use new_Rock (armed new_Scissors)) = CriticalAdvantage
   \<and> kind new_Scissors \<in> set (table_beats (kind new_Rock))
   \<and> fst (use new_Scissors (armed new_Rock)) \<noteq> CriticalAdvantage
   \<and> target_weapon unarmed = None
   \<and> fst (use new_Rock unarmed) = Neutral
   \<and> kind new_Spock \<notin> set (table_beats (kind new_Rock))
   \<and> kind new_Spock \<notin> set (table_loses_to (kind new_Rock))
   \<and> fst (use new_Rock (armed new_Spock)) = Neutral"
proof -
  have a: "target_weapon (armed new_Scissors) = Some new_Scissors"
    and b: "target_weapon (armed new_Rock) = Some new_Rock"
    and c: "target_weapon unarmed = None"
    and d: "target_weapon (armed new_Spock) = Some new_Spock"
    by (simp_all add: armed_def unarmed_def)
  have k: "kind new_Rock = Rock" "kind new_Scissors = Scissors" "kind new_Spock = Spock"
    by (simp_all add: new_Rock_def new_Scissors_def new_Spock_def)
  note t1 = use_follows_table [of new_Rock "armed new_Scissors"]
  note t3 = use_follows_table [of new_Rock unarmed]
  note t4 = use_follows_table [of new_Rock "armed new_Spock"]
  have "fst (use new_Rock (armed new_Scissors)) = CriticalAdvantage"
    using t1 [THEN conjunct1] a k by simp
  moreover have "fst (use new_Scissors (armed new_Rock)) \<noteq> CriticalAdvantage"
    using t1 [THEN conjunct2, THEN conjunct2, THEN conjunct2] b k by simp
  moreover have "fst (use new_Rock unarmed) = Neutral"
    using t3 [THEN conjunct2, THEN conjunct1] c by simp
  moreover have "fst (use new_Rock (armed new_Spock)) = Neutral"
    using t4 [THEN conjunct2, THEN conjunct2, THEN conjunct1] d k by simp
  ultimately show ?thesis
    using a b c k by simp
qed


section \<open>The Boss's critical hit\<close>

text \<open>
  C9. When the attacker is a Boss and the draw is below one fifth, \<open>attack\<close> returns twice
  what the base attack returned, and the target has taken, after the base attack, a
  second \<open>take_damage\<close> of the same amount.
\<close>

theorem Boss_attack_critical:
  assumes "archetype (H self) = Boss" and "roll < 2 / 10"
  shows "snd (snd (attack roll H self enemy logger))
           = 2 * snd (snd (Character_attack H self enemy logger))
       \<and> fst (attack roll H self enemy logger) enemy
           = take_damage (fst (Character_attack H self enemy logger) enemy)
               (snd (snd (Character_attack H self enemy logger)))
       \<and> health (fst (attack roll H self enemy logger) enemy)
           = max 0 (max 0 (health (H enemy) - snd (snd (Character_attack H self enemy logger)))
                      - snd (snd (Character_attack H self enemy logger)))"
  using assms
  by (simp add: attack_def Boss_attack_def Character_attack_result health_set_health
        take_damage_def Let_def)

text \<open>
  A Boss whose base attack deals 50 returns 100 on a critical hit, and a target with
  100 health is left with none.
\<close>

theorem Boss_attack_critical_witness:
  "archetype (lair 0) = Boss \<and> (0::rat) < 2 / 10
   \<and> snd (snd (Character_attack lair 0 1 None)) = 50
   \<and> snd (snd (attack 0 lair 0 1 None)) = 100
   \<and> health (lair 1) = 100
   \<and> health (fst (attack 0 lair 0 1 None) 1) = 0"
proof -
  have boss: "archetype (lair 0) = Boss"
    by (simp add: lair_def new_Boss_def Character_init_def)
  have roll: "(0::rat) < 2 / 10"
    by simp
  have base: "snd (snd (Character_attack lair 0 1 None)) = 50"
    by (simp add: Character_attack_result lair_def new_Boss_def Character_init_def)
  have before: "health (lair 1) = 100"
    by (simp add: lair_def hero_fields)
  note crit = Boss_attack_critical [where H = lair and self = 0 and roll = 0 and enemy = 1
      and logger = None, OF boss roll]
  show ?thesis
    using crit [THEN conjunct1] crit [THEN conjunct2, THEN conjunct2] boss base before
    by simp
qed

text \<open>
  C10. The value \<open>attack\<close> returns is the computed damage, base plus weapon bonus and
  doubled on a Boss's critical hit, whatever the health of the target. The health taken
  off the target is the minimum of that value and the health before (for a critical hit,
  given a health that is not negative), so a target with less health than the computed
  damage loses less than the value returned. A critical hit whose base attack has
  brought the target to 0 still applies its second \<open>take_damage\<close> and returns the double.
\<close>

theorem attack_returns_computed_damage:
  "snd (snd (attack roll H self enemy logger))
     = (if archetype (H self) = Boss \<and> roll < 2 / 10
        then 2 * (damage (H self) + (case weapon (H self) of None \<Rightarrow> 0 | Some w \<Rightarrow> damage_bonus w))
        else damage (H self) + (case weapon (H self) of None \<Rightarrow> 0 | Some w \<Rightarrow> damage_bonus w))
   \<and> (\<not> (archetype (H self) = Boss \<and> roll < 2 / 10) \<longrightarrow>
        health (H enemy) - health (fst (attack roll H self enemy logger) enemy)
          = min (snd (snd (attack roll H self enemy logger))) (health (H enemy)))
   \<and> (archetype (H self) = Boss \<and> roll < 2 / 10 \<and> 0 \<le> health (H enemy) \<longrightarrow>
        health (H enemy) - health (fst (attack roll H self enemy logger) enemy)
          = min (snd (snd (attack roll H self enemy logger))) (health (H enemy)))
   \<and> (health (H enemy) < snd (snd (attack roll H self enemy logger)) \<longrightarrow>
        health (H enemy) - health (fst (attack roll H self enemy logger) enemy)
          < snd (snd (attack roll H self enemy logger)))
   \<and> (archetype (H self) = Boss \<and> roll < 2 / 10
        \<and> health (fst (Character_attack H self enemy logger) enemy) = 0 \<longrightarrow>
        snd (snd (attack roll H self enemy logger))
          = 2 * snd (snd (Character_attack H self enemy logger))
        \<and> fst (attack roll H self enemy logger) enemy
          = take_damage (fst (Character_attack H self enemy logger) enemy)
              (snd (snd (Character_attack H self enemy logger))))"
  by (auto simp: attack_def Boss_attack_def Character_attack_result health_set_health
        take_damage_def Let_def split: option.splits)

text \<open>
  The player deals 15 to a goblin with 10 health, which loses 10; the Boss with a
  critical hit returns 100 against a player at 0 health, which loses nothing.
\<close>

theorem attack_returns_computed_damage_witness:
  "archetype (weak_duel 0) = Player
   \<and> health (weak_duel 1) = 10
   \<and> snd (snd (attack 0 weak_duel 0 1 None)) = 15
   \<and> health (weak_duel 1) - health (fst (attack 0 weak_duel 0 1 None) 1) = 10
   \<and> archetype (fallen 0) = Boss \<and> (0::rat) < 2 / 10
   \<and> health (fallen 1) = 0
   \<and> health (fst (Character_attack fallen 0 1 None) 1) = 0
   \<and> snd (snd (attack 0 fallen 0 1 None)) = 100
   \<and> health (fallen 1) - health (fst (attack 0 fallen 0 1 None) 1) = 0"
proof -
  have p: "archetype (weak_duel 0) = Player" "health (weak_duel 1) = 10"
    "damage (weak_duel 0) = 10" "weapon (weak_duel 0) = Some new_Rock"
    by (simp_all add: weak_duel_def duel_def hero_fields new_Goblin_def Character_init_def)
  have b: "archetype (fallen 0) = Boss" "health (fallen 1) = 0"
    "damage (fallen 0) = 50" "weapon (fallen 0) = None"
    by (simp_all add: fallen_def lair_def new_Boss_def Character_init_def)
  have base: "health (fst (Character_attack fallen 0 1 None) 1) = 0"
    "snd (snd (Character_attack fallen 0 1 None)) = 50"
    using b by (simp_all add: Character_attack_result health_set_health)
  note w = attack_returns_computed_damage [of 0 weak_duel 0 1 None]
  note f = attack_returns_computed_damage [of 0 fallen 0 1 None]
  have w1: "snd (snd (attack 0 weak_duel 0 1 None)) = 15"
    using w [THEN conjunct1] p by (simp add: new_Rock_def)
  have w2: "health (weak_duel 1) - health (fst (attack 0 weak_duel 0 1 None) 1) = 10"
    using w [THEN conjunct2, THEN conjunct1] p w1 by simp
  have f1: "snd (snd (attack 0 fallen 0 1 None)) = 100"
    using f [THEN conjunct1] b by simp
  have f2: "health (fallen 1) - health (fst (attack 0 fallen 0 1 None) 1) = 0"
    using f [THEN conjunct2, THEN conjunct2, THEN conjunct1] b f1 by simp
  show ?thesis
    using p b base w1 w2 f1 f2 by simp
qed


section \<open>Equip slots\<close>

text \<open>
  C7, as stated, fails. A helmet is added and equipped, and \<open>remove_item\<close> then takes it
  out of the collection while the helmet slot keeps referring to it. Also, with helmet 0
  in the collection, \<open>equip_armor\<close> accepts helmet 3, another object equal to it, and puts
  it into the slot; it is no entry of the collection, and with its flag set it is not
  equal to one either.
\<close>

theorem slots_in_items_counterexample:
  "slots_in_items (Inventory_init armory)
   \<and> items (fst (run (Inventory_init armory) [AddItem 0, EquipArmor 0, RemoveItem 0 1])) = []
   \<and> equipped_armor (fst (run (Inventory_init armory) [AddItem 0, EquipArmor 0, RemoveItem 0 1]))
        HELMET = Some 0
   \<and> \<not> slots_in_items (fst (run (Inventory_init armory) [AddItem 0, EquipArmor 0, RemoveItem 0 1]))
   \<and> items (fst (run (Inventory_init armory) [AddItem 0, EquipArmor 3])) = [0]
   \<and> equipped_armor (fst (run (Inventory_init armory) [AddItem 0, EquipArmor 3])) HELMET = Some 3
   \<and> \<not> contains (fst (run (Inventory_init armory) [AddItem 0, EquipArmor 3])) 3
   \<and> \<not> slots_in_items (fst (run (Inventory_init armory) [AddItem 0, EquipArmor 3]))"
  by (simp add: Inventory_init_def add_item_def append_item_def remove_item_def equip_armor_def
      contains_def set_is_equipped_def post_init_def MAX_WEIGHT_def Let_def armory_def
      helmet_def sword_def potion_def slots_in_items_def equipped_refs_def armor_slots_def)

text \<open>
  C7, amended. Let every object that an equip call accepts be itself an entry of the
  collection, and let no \<open>remove_item\<close> or \<open>use_consumable\<close> call take out of the
  collection an entry that an equip slot refers to. Then, along every sequence of calls
  of the seven operations from a state in which every object an equip slot refers to is
  an entry of the collection, this holds again in the state reached.
\<close>

theorem slots_in_items_preserved:
  assumes "slots_in_items s" and "contract_run s cs"
  shows "slots_in_items (fst (run s cs))"
  using assms
proof (induction cs arbitrary: s)
  case Nil
  then show ?case by simp
next
  case (Cons c cs)
  show ?case
  proof (cases "exec_call s c")
    case (Inl e)
    then show ?thesis using Cons.prems by simp
  next
    case (Inr r)
    obtain ok s' where r: "r = (ok, s')" by (cases r)
    have "slots_in_items s'"
      using exec_call_slots [of s c ok s'] Cons.prems Inr r by simp
    moreover have "contract_run s' cs"
      using Cons.prems Inr r by simp
    ultimately show ?thesis
      using Cons.IH [of s'] Inr r by simp
  qed
qed

text \<open>
  A helmet, a sword and two potions are added; helmet and sword are equipped, a potion
  is used, the helmet is unequipped and then removed. The sword stays equipped and held.
\<close>

theorem slots_in_items_preserved_witness:
  "slots_in_items (Inventory_init armory)
   \<and> contract_run (Inventory_init armory)
        [AddItem 0, AddItem 1, AddItem 2, EquipArmor 0, EquipWeapon 1, UseConsumable 2,
         UnequipArmor HELMET, RemoveItem 0 1]
   \<and> slots_in_items (fst (run (Inventory_init armory)
        [AddItem 0, AddItem 1, AddItem 2, EquipArmor 0, EquipWeapon 1, UseConsumable 2,
         UnequipArmor HELMET, RemoveItem 0 1]))
   \<and> items (fst (run (Inventory_init armory)
        [AddItem 0, AddItem 1, AddItem 2, EquipArmor 0, EquipWeapon 1, UseConsumable 2,
         UnequipArmor HELMET, RemoveItem 0 1])) = [1, 2]
   \<and> equipped_weapon (fst (run (Inventory_init armory)
        [AddItem 0, AddItem 1, AddItem 2, EquipArmor 0, EquipWeapon 1, UseConsumable 2,
         UnequipArmor HELMET, RemoveItem 0 1])) = Some 1"
proof -
  have init: "slots_in_items (Inventory_init armory)"
    by (simp add: slots_in_items_def equipped_refs_def armor_slots_def Inventory_init_def)
  have ok: "contract_run (Inventory_init armory)
        [AddItem 0, AddItem 1, AddItem 2, EquipArmor 0, EquipWeapon 1, UseConsumable 2,
         UnequipArmor HELMET, RemoveItem 0 1]"
    by (simp add: Inventory_init_def add_item_def append_item_def remove_item_def
        equip_armor_def unequip_armor_def equip_weapon_def unequip_weapon_def
        use_consumable_def contains_def set_is_equipped_def isinstance_Consumable_def
        post_init_def MAX_WEIGHT_def MAX_CONSUMABLES_def Let_def selected_def armory_def
        helmet_def sword_def potion_def equipped_refs_def armor_slots_def)
  have held: "items (fst (run (Inventory_init armory)
        [AddItem 0, AddItem 1, AddItem 2, EquipArmor 0, EquipWeapon 1, UseConsumable 2,
         UnequipArmor HELMET, RemoveItem 0 1])) = [1, 2]"
    by (simp add: Inventory_init_def add_item_def append_item_def remove_item_def
        equip_armor_def unequip_armor_def equip_weapon_def unequip_weapon_def
        use_consumable_def contains_def set_is_equipped_def isinstance_Consumable_def
        post_init_def MAX_WEIGHT_def MAX_CONSUMABLES_def Let_def armory_def helmet_def
        sword_def potion_def)
  have slot: "equipped_weapon (fst (run (Inventory_init armory)
        [AddItem 0, AddItem 1, AddItem 2, EquipArmor 0, EquipWeapon 1, UseConsumable 2,
         UnequipArmor HELMET, RemoveItem 0 1])) = Some 1"
    by (simp add: Inventory_init_def add_item_def append_item_def remove_item_def
        equip_armor_def unequip_armor_def equip_weapon_def unequip_weapon_def
        use_consumable_def contains_def set_is_equipped_def isinstance_Consumable_def
        post_init_def MAX_WEIGHT_def MAX_CONSUMABLES_def Let_def armory_def helmet_def
        sword_def potion_def)
  show ?thesis
    using init ok held slot slots_in_items_preserved [OF init ok] by blast
qed


section \<open>The cap on consumable types\<close>

text \<open>
  C8. When the collection holds at least \<open>MAX_CONSUMABLES\<close> (three) consumable entries and
  none of its \<open>Consumable\<close> entries has the name of the consumable to be added,
  \<open>add_item\<close> returns \<open>False\<close> and leaves the whole state, and with it the collection and
  \<open>current_weight\<close>, as it was. No path of \<open>add_item\<close> raises.
\<close>

theorem add_item_cap_rejects:
  assumes "item_type (heap s item) = CONSUMABLE"
    and "length (filter (\<lambda>i. item_type (heap s i) = CONSUMABLE) (items s)) \<ge> MAX_CONSUMABLES"
    and "item_name (heap s item)
           \<notin> set (map (\<lambda>e. item_name (heap s e))
                   (filter (\<lambda>e. isinstance_Consumable (heap s e)) (items s)))"
  shows "add_item s item = (False, s)"
proof -
  have "find (\<lambda>existing. isinstance_Consumable (heap s existing)
                \<and> item_name (heap s existing) = item_name (heap s item)
                \<and> quantity (heap s existing) < max_stack (heap s existing)) (items s) = None"
  proof -
    have "\<not> (isinstance_Consumable (heap s e) \<and> item_name (heap s e) = item_name (heap s item))"
      if "e \<in> set (items s)" for e
    proof
      assume e: "isinstance_Consumable (heap s e) \<and> item_name (heap s e) = item_name (heap s item)"
      with that have "e \<in> set (filter (\<lambda>e. isinstance_Consumable (heap s e)) (items s))"
        by simp
      then have "item_name (heap s e)
           \<in> set (map (\<lambda>e. item_name (heap s e))
                   (filter (\<lambda>e. isinstance_Consumable (heap s e)) (items s)))"
        unfolding set_map by (rule imageI)
      with e have "item_name (heap s item)
           \<in> set (map (\<lambda>e. item_name (heap s e))
                   (filter (\<lambda>e. isinstance_Consumable (heap s e)) (items s)))"
        by metis
      with assms(3) show False by contradiction
    qed
    then show ?thesis
      unfolding find_None_iff by blast
  qed
  then show ?thesis
    using assms(1,2) by (simp add: add_item_def)
qed

text \<open>
  Three consumables of three names are added to an empty inventory; a health potion, a
  fourth name, is then refused.
\<close>

theorem add_item_cap_rejects_witness:
  "fst (run (Inventory_init pantry) [AddItem 0, AddItem 1, AddItem 2]) = full_pantry
   \<and> item_type (heap full_pantry 3) = CONSUMABLE
   \<and> MAX_CONSUMABLES
       \<le> length (filter (\<lambda>i. item_type (heap full_pantry i) = CONSUMABLE) (items full_pantry))
   \<and> item_name (heap full_pantry 3)
       \<notin> set (map (\<lambda>e. item_name (heap full_pantry e))
               (filter (\<lambda>e. isinstance_Consumable (heap full_pantry e)) (items full_pantry)))
   \<and> add_item full_pantry 3 = (False, full_pantry)"
proof -
  have reach: "fst (run (Inventory_init pantry) [AddItem 0, AddItem 1, AddItem 2]) = full_pantry"
    by (simp add: Inventory_init_def add_item_def append_item_def isinstance_Consumable_def
        post_init_def MAX_WEIGHT_def MAX_CONSUMABLES_def Let_def full_pantry_def pantry_def
        potion_def)
  have h1: "item_type (heap full_pantry 3) = CONSUMABLE"
    by (simp add: Inventory_init_def add_item_def append_item_def isinstance_Consumable_def
        post_init_def MAX_WEIGHT_def MAX_CONSUMABLES_def Let_def full_pantry_def pantry_def
        potion_def)
  have h2: "MAX_CONSUMABLES
       \<le> length (filter (\<lambda>i. item_type (heap full_pantry i) = CONSUMABLE) (items full_pantry))"
    by (simp add: Inventory_init_def add_item_def append_item_def isinstance_Consumable_def
        post_init_def MAX_WEIGHT_def MAX_CONSUMABLES_def Let_def full_pantry_def pantry_def
        potion_def)
  have h3: "item_name (heap full_pantry 3)
       \<notin> set (map (\<lambda>e. item_name (heap full_pantry e))
               (filter (\<lambda>e. isinstance_Consumable (heap full_pantry e)) (items full_pantry)))"
    by (simp add: Inventory_init_def add_item_def append_item_def isinstance_Consumable_def
        post_init_def MAX_WEIGHT_def MAX_CONSUMABLES_def Let_def full_pantry_def pantry_def
        potion_def)
  show ?thesis
    using reach h1 h2 h3 add_item_cap_rejects [OF h1 h2 h3] by blast
qed

end
